theory Spec2Isabelle
  imports Main "HOL-Library.Sublist"
begin

section \<open>The event broker (app/sse.py)\<close>

text \<open>
  An \<open>asyncio.Queue\<close> is a Python object: two queues are the same channel exactly when
  they are the same object. A queue is therefore a handle (a natural number) into a store
  that maps each handle to the FIFO contents of the queue, oldest item first. The queues
  are created with no \<open>maxsize\<close>, so \<open>put\<close> never waits and never fails: it appends.

  The state is the \<open>_subscribers\<close> dictionary of the broker, the store of queue
  contents, and the next unused handle (what \<open>asyncio.Queue()\<close> will allocate).
  Calls to the logger are left out: they change nothing the program reads.
\<close>

record sse_event =
  event :: string
  data :: string

record broker_state =
  subscribers :: "string \<rightharpoonup> nat set"
  queues :: "nat \<Rightarrow> sse_event list"
  next_queue :: nat

definition SSEBroker :: broker_state where
  "SSEBroker = \<lparr>subscribers = Map.empty, queues = (\<lambda>_. []), next_queue = 0\<rparr>"

text \<open>
  \<open>self._subscribers[user_id]\<close> on a \<open>defaultdict(set)\<close>: a missing key is first
  bound to a new empty set; the dictionary after the read and the set that was read.
\<close>

definition getitem :: "(string \<rightharpoonup> nat set) \<Rightarrow> string \<Rightarrow> (string \<rightharpoonup> nat set) \<times> nat set" where
  "getitem d k = (case d k of None \<Rightarrow> (d(k \<mapsto> {}), {}) | Some s \<Rightarrow> (d, s))"

definition subscribe :: "broker_state \<Rightarrow> string \<Rightarrow> broker_state \<times> nat" where
  "subscribe b user_id =
     (let queue = next_queue b;
          (d, s) = getitem (subscribers b) user_id;
          d' = d(user_id \<mapsto> insert queue s)
      in (b\<lparr>subscribers := d', queues := (queues b)(queue := []), next_queue := Suc queue\<rparr>,
          queue))"

definition unsubscribe :: "broker_state \<Rightarrow> string \<Rightarrow> nat \<Rightarrow> broker_state" where
  "unsubscribe b user_id queue =
     (let (d, s) = getitem (subscribers b) user_id;
          d1 = d(user_id \<mapsto> s - {queue});
          (d2, s2) = getitem d1 user_id;
          d3 = (if s2 = {} then d2(user_id := None) else d2)
      in b\<lparr>subscribers := d3\<rparr>)"

text \<open>
  \<open>publish\<close> builds one event and puts it on every queue of
  \<open>self._subscribers.get(user_id, set())\<close>; \<open>get\<close> does not create an entry.
  The \<open>for\<close> loop visits each queue of the set once, in an order Python does not fix.
  \<open>put_loop\<close> is that loop over one enumeration of the set; its result does not depend
  on the enumeration (lemma \<open>put_loop_pointwise\<close> below), and \<open>publish\<close> is written
  with the order-free form. \<open>json_dumps\<close> stands for \<open>json.dumps\<close>, which is
  library code: it is a parameter, total on the JSON-ready payloads the callers pass.
\<close>

definition put :: "(nat \<Rightarrow> sse_event list) \<Rightarrow> nat \<Rightarrow> sse_event \<Rightarrow> (nat \<Rightarrow> sse_event list)" where
  "put store queue ev = store(queue := store queue @ [ev])"

fun put_loop :: "sse_event \<Rightarrow> nat list \<Rightarrow> (nat \<Rightarrow> sse_event list) \<Rightarrow> (nat \<Rightarrow> sse_event list)" where
  "put_loop ev [] store = store"
| "put_loop ev (queue # rest) store = put_loop ev rest (put store queue ev)"

definition put_each :: "sse_event \<Rightarrow> nat set \<Rightarrow> (nat \<Rightarrow> sse_event list) \<Rightarrow> (nat \<Rightarrow> sse_event list)" where
  "put_each ev s store = (\<lambda>queue. if queue \<in> s then store queue @ [ev] else store queue)"

definition publish :: "('d \<Rightarrow> string) \<Rightarrow> broker_state \<Rightarrow> string \<Rightarrow> string \<Rightarrow> 'd \<Rightarrow> broker_state" where
  "publish json_dumps b user_id event_type payload =
     (let ev = \<lparr>event = event_type, data = json_dumps payload\<rparr>;
          targets = (case subscribers b user_id of None \<Rightarrow> {} | Some s \<Rightarrow> s)
      in b\<lparr>queues := put_each ev targets (queues b)\<rparr>)"

text \<open>Successive \<open>publish\<close> calls for one user, one per (event type, payload) pair.\<close>

fun publish_all :: "('d \<Rightarrow> string) \<Rightarrow> broker_state \<Rightarrow> string \<Rightarrow> (string \<times> 'd) list \<Rightarrow> broker_state" where
  "publish_all json_dumps b user_id [] = b"
| "publish_all json_dumps b user_id ((event_type, payload) # rest) =
     publish_all json_dumps (publish json_dumps b user_id event_type payload) user_id rest"

definition events_of :: "('d \<Rightarrow> string) \<Rightarrow> (string \<times> 'd) list \<Rightarrow> sse_event list" where
  "events_of json_dumps evs = map (\<lambda>(event_type, payload). \<lparr>event = event_type, data = json_dumps payload\<rparr>) evs"

text \<open>A call of the broker, and a run of calls from a given state.\<close>

datatype 'd broker_call =
  Subscribe string
| Unsubscribe string nat
| Publish string string 'd

fun call :: "('d \<Rightarrow> string) \<Rightarrow> broker_state \<Rightarrow> 'd broker_call \<Rightarrow> broker_state" where
  "call json_dumps b (Subscribe user_id) = fst (subscribe b user_id)"
| "call json_dumps b (Unsubscribe user_id queue) = unsubscribe b user_id queue"
| "call json_dumps b (Publish user_id event_type payload) = publish json_dumps b user_id event_type payload"

fun run :: "('d \<Rightarrow> string) \<Rightarrow> broker_state \<Rightarrow> 'd broker_call list \<Rightarrow> broker_state" where
  "run json_dumps b [] = b"
| "run json_dumps b (c # cs) = run json_dumps (call json_dumps b c) cs"

section \<open>The tables (app/models.py)\<close>

text \<open>
  Timestamps are seconds on the server's clock. A table with a primary key that the code
  reads only by that key is a map from the key to the row; \<open>client_tokens\<close> is read by
  a full scan, so it is the list of its rows in scan order.
\<close>

datatype Priority = low | medium | high | critical

datatype Status = unread | read | archived

datatype DeviceType = android | gnome | other

fun Status_value :: "Status \<Rightarrow> string" where
  "Status_value unread = ''unread''"
| "Status_value read = ''read''"
| "Status_value archived = ''archived''"

text \<open>
  A decoded JSON value. The members of an object are strings: the one object the code
  reads is the session payload, whose member \<open>uid\<close> the code returns as a \<open>str\<close>.
\<close>

datatype json =
  JObject "string \<rightharpoonup> string"
| JArray "string list"
| JString string
| JNumber int
| JBool bool
| JNull

record User =
  User_id :: string
  User_sub :: string
  User_email :: string
  User_name :: string
  User_created_at :: nat
  User_last_login_at :: nat

record Notification =
  Notification_id :: string
  Notification_user_id :: string
  Notification_title :: string
  Notification_message :: "string option"
  Notification_priority :: Priority
  Notification_status :: Status
  Notification_source :: "string option"
  Notification_created_at :: nat
  Notification_read_at :: "nat option"
  Notification_metadata :: "json option"

record ClientToken =
  ClientToken_id :: string
  ClientToken_user_id :: string
  ClientToken_token_hash :: string
  ClientToken_name :: string
  ClientToken_device_type :: DeviceType
  ClientToken_last_used_at :: "nat option"
  ClientToken_created_at :: nat
  ClientToken_expires_at :: "nat option"

record db =
  users :: "string \<rightharpoonup> User"
  notifications :: "string \<rightharpoonup> Notification"
  client_tokens :: "ClientToken list"

text \<open>Exceptions: those of the libraries that the code catches or lets through, and its own.\<close>

datatype exn =
  BadSignature
| SignatureExpired
| BadPayload
| KeyError
| TypeError
| MultipleResultsFound
| IntegrityError
| ValueError
| HTTPException nat string

text \<open>\<open>result.scalar_one_or_none()\<close> on the rows a query selected.\<close>

fun scalar_one_or_none :: "'a list \<Rightarrow> exn + 'a option" where
  "scalar_one_or_none [] = Inr None"
| "scalar_one_or_none [row] = Inr (Some row)"
| "scalar_one_or_none (row # row' # rows) = Inl MultipleResultsFound"

section \<open>Sessions and bearer tokens (app/auth.py)\<close>

text \<open>
  \<open>URLSafeTimedSerializer\<close> is library code (itsdangerous): a serializer object is the
  pair of its two methods, each reading the clock (the first argument). \<open>loads\<close> takes
  the token and \<open>max_age\<close> and returns the decoded payload or raises.
\<close>

record serializer =
  dumps :: "nat \<Rightarrow> json \<Rightarrow> string"
  loads :: "nat \<Rightarrow> string \<Rightarrow> nat \<Rightarrow> exn + json"

definition SESSION_COOKIE :: string where
  "SESSION_COOKIE = ''session''"

definition SESSION_MAX_AGE :: nat where
  "SESSION_MAX_AGE = 60 * 60 * 24 * 7"

text \<open>A \<open>SessionManager\<close> holds nothing but its serializer.\<close>

definition SessionManager :: "(string \<Rightarrow> serializer) \<Rightarrow> string \<Rightarrow> serializer" where
  "SessionManager URLSafeTimedSerializer secret_key = URLSafeTimedSerializer secret_key"

definition create_session :: "serializer \<Rightarrow> nat \<Rightarrow> string \<Rightarrow> string" where
  "create_session sm now uid = dumps sm now (JObject [''uid'' \<mapsto> uid])"

text \<open>\<open>obj[key]\<close> for a string key: \<open>KeyError\<close> on a dict without the key, \<open>TypeError\<close> on
  a list, a string, a number, a boolean and \<open>None\<close>.\<close>

fun subscript :: "json \<Rightarrow> string \<Rightarrow> exn + string" where
  "subscript (JObject d) k = (case d k of None \<Rightarrow> Inl KeyError | Some v \<Rightarrow> Inr v)"
| "subscript (JArray xs) k = Inl TypeError"
| "subscript (JString x) k = Inl TypeError"
| "subscript (JNumber n) k = Inl TypeError"
| "subscript (JBool x) k = Inl TypeError"
| "subscript JNull k = Inl TypeError"

text \<open>
  The \<open>try\<close> body, then the \<open>except (BadSignature, SignatureExpired, KeyError)\<close> clause:
  any other exception leaves the function.
\<close>

definition validate_session :: "serializer \<Rightarrow> nat \<Rightarrow> string \<Rightarrow> exn + string option" where
  "validate_session sm now token =
     (case (case loads sm now token SESSION_MAX_AGE of
              Inl e \<Rightarrow> Inl e
            | Inr obj \<Rightarrow> subscript obj ''uid'') of
        Inr uid \<Rightarrow> Inr (Some uid)
      | Inl e \<Rightarrow> (if e = BadSignature \<or> e = SignatureExpired \<or> e = KeyError then Inr None else Inl e))"

record Request =
  cookies :: "string \<rightharpoonup> string"
  headers :: "string \<rightharpoonup> string"

record Settings =
  SECRET_KEY :: string

definition get_current_user_from_session ::
  "(string \<Rightarrow> serializer) \<Rightarrow> nat \<Rightarrow> Request \<Rightarrow> db \<Rightarrow> Settings \<Rightarrow> exn + User option" where
  "get_current_user_from_session URLSafeTimedSerializer now request d settings =
     (case cookies request SESSION_COOKIE of
        None \<Rightarrow> Inr None
      | Some cookie \<Rightarrow>
          if cookie = [] then Inr None
          else (case validate_session (SessionManager URLSafeTimedSerializer (SECRET_KEY settings)) now cookie of
                  Inl e \<Rightarrow> Inl e
                | Inr None \<Rightarrow> Inr None
                | Inr (Some uid) \<Rightarrow> if uid = [] then Inr None else Inr (users d uid)))"

text \<open>
  The scan of \<open>get_current_user_from_token\<close>. \<open>checkpw\<close> is \<open>bcrypt.checkpw\<close> (library
  code, a parameter): it answers with a boolean or raises (\<open>ValueError\<close> on a password
  of more than 72 bytes since bcrypt 5.0.0, and on a hash it cannot read). The loop has no
  \<open>try\<close>, so an exception of \<open>checkpw\<close> leaves the function. On the first row whose hash
  accepts the raw token, the row's \<open>last_used_at\<close> is set and committed, and the owner is
  looked up by primary key.
\<close>

definition touch :: "nat \<Rightarrow> ClientToken \<Rightarrow> db \<Rightarrow> db" where
  "touch now ct d =
     d\<lparr>client_tokens :=
         map (\<lambda>t. if ClientToken_id t = ClientToken_id ct then t\<lparr>ClientToken_last_used_at := Some now\<rparr> else t)
           (client_tokens d)\<rparr>"

fun scan_tokens ::
  "(string \<Rightarrow> string \<Rightarrow> exn + bool) \<Rightarrow> nat \<Rightarrow> string \<Rightarrow> db \<Rightarrow> ClientToken list
     \<Rightarrow> (exn + User option) \<times> db" where
  "scan_tokens checkpw now raw_token d [] = (Inr None, d)"
| "scan_tokens checkpw now raw_token d (ct # tokens) =
     (case checkpw raw_token (ClientToken_token_hash ct) of
        Inl e \<Rightarrow> (Inl e, d)
      | Inr matches \<Rightarrow>
          if matches
          then (Inr (users d (ClientToken_user_id ct)), touch now ct d)
          else scan_tokens checkpw now raw_token d tokens)"

definition startswith :: "string \<Rightarrow> string \<Rightarrow> bool" where
  "startswith s p = (take (length p) s = p)"

definition get_current_user_from_token ::
  "(string \<Rightarrow> string \<Rightarrow> exn + bool) \<Rightarrow> nat \<Rightarrow> Request \<Rightarrow> db \<Rightarrow> (exn + User option) \<times> db" where
  "get_current_user_from_token checkpw now request d =
     (let auth_header = (case headers request ''Authorization'' of None \<Rightarrow> [] | Some h \<Rightarrow> h)
      in if \<not> startswith auth_header ''Bearer '' then (Inr None, d)
         else (let raw_token = drop 7 auth_header
               in scan_tokens checkpw now raw_token d (client_tokens d)))"

text \<open>The result of a dependency or a route, with the database as it leaves it.\<close>

definition get_current_user ::
  "(string \<Rightarrow> serializer) \<Rightarrow> (string \<Rightarrow> string \<Rightarrow> exn + bool) \<Rightarrow> nat \<Rightarrow> Request \<Rightarrow> db \<Rightarrow> Settings
     \<Rightarrow> (exn + User) \<times> db" where
  "get_current_user URLSafeTimedSerializer checkpw now request d settings =
     (case get_current_user_from_session URLSafeTimedSerializer now request d settings of
        Inl e \<Rightarrow> (Inl e, d)
      | Inr (Some user) \<Rightarrow> (Inr user, d)
      | Inr None \<Rightarrow>
          (case get_current_user_from_token checkpw now request d of
             (Inl e, d') \<Rightarrow> (Inl e, d')
           | (Inr (Some user), d') \<Rightarrow> (Inr user, d')
           | (Inr None, d') \<Rightarrow> (Inl (HTTPException 401 ''Not authenticated''), d')))"

definition require_session ::
  "(string \<Rightarrow> serializer) \<Rightarrow> nat \<Rightarrow> Request \<Rightarrow> db \<Rightarrow> Settings \<Rightarrow> exn + User" where
  "require_session URLSafeTimedSerializer now request d settings =
     (case get_current_user_from_session URLSafeTimedSerializer now request d settings of
        Inl e \<Rightarrow> Inl e
      | Inr None \<Rightarrow> Inl (HTTPException 401 ''Session required'')
      | Inr (Some user) \<Rightarrow> Inr user)"

text \<open>
  \<open>hash_token\<close>: \<open>bcrypt.hashpw\<close> (a parameter, which returns the hash or raises as
  \<open>checkpw\<close> does) with the salt \<open>bcrypt.gensalt()\<close> drew.
\<close>

definition hash_token :: "(string \<Rightarrow> string \<Rightarrow> exn + string) \<Rightarrow> string \<Rightarrow> string \<Rightarrow> exn + string" where
  "hash_token hashpw gensalt token = hashpw token gensalt"

section \<open>Issuing and revoking tokens (app/routes/tokens.py)\<close>

text \<open>
  What a request draws at random: the plaintext of \<open>secrets.token_urlsafe(32)\<close>, the salt
  of \<open>bcrypt.gensalt()\<close> and the \<open>uuid4\<close> that becomes the row's id.
\<close>

record draws =
  draw_token_urlsafe :: string
  draw_gensalt :: string
  draw_uuid4 :: string

record TokenCreate =
  TokenCreate_name :: string
  TokenCreate_device_type :: DeviceType

record TokenCreatedResponse =
  TokenResponse_id :: string
  TokenResponse_name :: string
  TokenResponse_device_type :: DeviceType
  TokenResponse_last_used_at :: "nat option"
  TokenResponse_created_at :: nat
  TokenResponse_expires_at :: "nat option"
  TokenCreatedResponse_token :: string

definition generate_api_token :: "draws \<Rightarrow> string" where
  "generate_api_token r = draw_token_urlsafe r"

text \<open>
  \<open>create_token\<close>, for the user \<open>require_session\<close> resolved. The insert fails on a row
  with the same primary key or the same \<open>token_hash\<close> (a unique column).
\<close>

definition create_token ::
  "(string \<Rightarrow> string \<Rightarrow> exn + string) \<Rightarrow> draws \<Rightarrow> nat \<Rightarrow> TokenCreate \<Rightarrow> User \<Rightarrow> db
     \<Rightarrow> exn + TokenCreatedResponse \<times> db" where
  "create_token hashpw r now payload user d =
     (let plaintext = generate_api_token r
      in case hash_token hashpw (draw_gensalt r) plaintext of
           Inl e \<Rightarrow> Inl e
         | Inr hashed \<Rightarrow>
             (let token = \<lparr>ClientToken_id = draw_uuid4 r,
                           ClientToken_user_id = User_id user,
                           ClientToken_token_hash = hashed,
                           ClientToken_name = TokenCreate_name payload,
                           ClientToken_device_type = TokenCreate_device_type payload,
                           ClientToken_last_used_at = None,
                           ClientToken_created_at = now,
                           ClientToken_expires_at = None\<rparr>
              in if \<exists>t \<in> set (client_tokens d).
                      ClientToken_id t = ClientToken_id token \<or> ClientToken_token_hash t = hashed
                 then Inl IntegrityError
                 else Inr (\<lparr>TokenResponse_id = ClientToken_id token,
                             TokenResponse_name = ClientToken_name token,
                             TokenResponse_device_type = ClientToken_device_type token,
                             TokenResponse_last_used_at = ClientToken_last_used_at token,
                             TokenResponse_created_at = ClientToken_created_at token,
                             TokenResponse_expires_at = ClientToken_expires_at token,
                             TokenCreatedResponse_token = plaintext\<rparr>,
                           d\<lparr>client_tokens := client_tokens d @ [token]\<rparr>)))"

definition revoke_token :: "string \<Rightarrow> User \<Rightarrow> db \<Rightarrow> exn + db" where
  "revoke_token tid user d =
     (case scalar_one_or_none
             (filter (\<lambda>t. ClientToken_id t = tid \<and> ClientToken_user_id t = User_id user) (client_tokens d)) of
        Inl e \<Rightarrow> Inl e
      | Inr None \<Rightarrow> Inl (HTTPException 404 ''Token not found'')
      | Inr (Some token) \<Rightarrow>
          Inr (d\<lparr>client_tokens := filter (\<lambda>t. ClientToken_id t \<noteq> ClientToken_id token) (client_tokens d)\<rparr>))"

section \<open>Updating a notification (app/routes/notifications.py)\<close>

record NotificationUpdate =
  NotificationUpdate_status :: "Status option"

text \<open>The rows with the given id and owner: at most one, the id being the primary key.\<close>

definition select_notification :: "db \<Rightarrow> string \<Rightarrow> string \<Rightarrow> Notification option" where
  "select_notification d nid uid =
     (case notifications d nid of
        None \<Rightarrow> None
      | Some n \<Rightarrow> if Notification_user_id n = uid then Some n else None)"

text \<open>The assignments of lines 147 to 150 on the row that was found.\<close>

definition apply_update :: "nat \<Rightarrow> NotificationUpdate \<Rightarrow> Notification \<Rightarrow> Notification" where
  "apply_update now payload n =
     (case NotificationUpdate_status payload of
        None \<Rightarrow> n
      | Some st \<Rightarrow>
          (let n' = n\<lparr>Notification_status := st\<rparr>
           in if st = read \<and> Notification_read_at n' = None
              then n'\<lparr>Notification_read_at := Some now\<rparr>
              else n'))"

text \<open>
  \<open>update_notification\<close>: the response (\<open>NotificationResponse\<close> has the columns of the
  row), the database after the commit and the broker after the \<open>publish\<close>.
\<close>

definition update_notification ::
  "(json \<Rightarrow> string) \<Rightarrow> nat \<Rightarrow> string \<Rightarrow> NotificationUpdate \<Rightarrow> User \<Rightarrow> db \<Rightarrow> broker_state
     \<Rightarrow> (exn + Notification) \<times> db \<times> broker_state" where
  "update_notification json_dumps now nid payload user d b =
     (case select_notification d nid (User_id user) of
        None \<Rightarrow> (Inl (HTTPException 404 ''Notification not found''), d, b)
      | Some n \<Rightarrow>
          (let notification = apply_update now payload n;
               d' = d\<lparr>notifications := (notifications d)(nid \<mapsto> notification)\<rparr>;
               response = notification;
               b' = publish json_dumps b (User_id user) ''status_change''
                      (JObject [''id'' \<mapsto> Notification_id notification,
                                ''status'' \<mapsto> Status_value (Notification_status notification)])
           in (Inr response, d', b')))"

text \<open>Successive PATCH requests on one notification by one user, each at its own time.\<close>

fun patch_all ::
  "(json \<Rightarrow> string) \<Rightarrow> string \<Rightarrow> User \<Rightarrow> (NotificationUpdate \<times> nat) list \<Rightarrow> db \<times> broker_state
     \<Rightarrow> db \<times> broker_state" where
  "patch_all json_dumps nid user [] (d, b) = (d, b)"
| "patch_all json_dumps nid user ((payload, now) # rest) (d, b) =
     patch_all json_dumps nid user rest (snd (update_notification json_dumps now nid payload user d b))"

section \<open>A small deployment, for concrete instances\<close>

text \<open>
  Stand-ins for the library parameters, used only to run the definitions on concrete
  inputs: a serializer that knows three signed tokens (a session of Alice, a signed list
  and a signed object without \<open>uid\<close>) and rejects every other string, and a salted hash
  that \<open>demo_checkpw\<close> accepts exactly for the password it was made from. Both hash
  functions raise \<open>ValueError\<close> on a password of more than 72 bytes, as bcrypt 5.0.0 does.
\<close>

definition demo_serializer :: "string \<Rightarrow> serializer" where
  "demo_serializer secret_key =
     \<lparr>dumps = (\<lambda>now obj. ''signed-alice''),
      loads = (\<lambda>now token max_age.
        if token = ''signed-alice'' then Inr (JObject [''uid'' \<mapsto> ''u-alice''])
        else if token = ''signed-list'' then Inr (JArray [''u-alice''])
        else if token = ''signed-empty'' then Inr (JObject Map.empty)
        else Inl BadSignature)\<rparr>"

definition demo_hashpw :: "string \<Rightarrow> string \<Rightarrow> exn + string" where
  "demo_hashpw password salt =
     (if length password > 72 then Inl ValueError else Inr (salt @ CHR ''$'' # password))"

definition demo_checkpw :: "string \<Rightarrow> string \<Rightarrow> exn + bool" where
  "demo_checkpw password hashed =
     (if length password > 72 then Inl ValueError else Inr (suffix (CHR ''$'' # password) hashed))"

definition demo_long_token :: string where
  "demo_long_token = replicate 73 (CHR ''x'')"

definition demo_alice :: User where
  "demo_alice = \<lparr>User_id = ''u-alice'', User_sub = ''sub-a'', User_email = ''alice@example.com'',
     User_name = ''Alice'', User_created_at = 1, User_last_login_at = 1\<rparr>"

definition demo_bob :: User where
  "demo_bob = \<lparr>User_id = ''u-bob'', User_sub = ''sub-b'', User_email = ''bob@example.com'',
     User_name = ''Bob'', User_created_at = 2, User_last_login_at = 2\<rparr>"

definition demo_token :: ClientToken where
  "demo_token = \<lparr>ClientToken_id = ''t-1'', ClientToken_user_id = ''u-bob'',
     ClientToken_token_hash = ''salt$bob-secret'', ClientToken_name = ''Phone'',
     ClientToken_device_type = android, ClientToken_last_used_at = None,
     ClientToken_created_at = 3, ClientToken_expires_at = None\<rparr>"

definition demo_notification :: Notification where
  "demo_notification = \<lparr>Notification_id = ''n-1'', Notification_user_id = ''u-alice'',
     Notification_title = ''Test alert'', Notification_message = None, Notification_priority = high,
     Notification_status = unread, Notification_source = Some ''ci'', Notification_created_at = 4,
     Notification_read_at = None, Notification_metadata = None\<rparr>"

definition demo_db :: db where
  "demo_db = \<lparr>users = [''u-alice'' \<mapsto> demo_alice, ''u-bob'' \<mapsto> demo_bob],
     notifications = [''n-1'' \<mapsto> demo_notification],
     client_tokens = [demo_token]\<rparr>"

definition demo_settings :: Settings where
  "demo_settings = \<lparr>SECRET_KEY = ''change-me-to-a-random-secret''\<rparr>"

definition demo_draws :: draws where
  "demo_draws = \<lparr>draw_token_urlsafe = ''alice-secret'', draw_gensalt = ''pepper'', draw_uuid4 = ''t-2''\<rparr>"

definition demo_json_dumps :: "json \<Rightarrow> string" where
  "demo_json_dumps j =
     (case j of
        JObject m \<Rightarrow> (case (m ''id'', m ''status'') of
                       (Some i, Some st) \<Rightarrow> ''{id: '' @ i @ '', status: '' @ st @ ''}''
                     | _ \<Rightarrow> ''{}'')
      | _ \<Rightarrow> ''null'')"

definition demo_read_notification :: Notification where
  "demo_read_notification = demo_notification\<lparr>Notification_status := read, Notification_read_at := Some 100\<rparr>"

definition demo_read_db :: db where
  "demo_read_db = demo_db\<lparr>notifications := [''n-1'' \<mapsto> demo_read_notification]\<rparr>"

section \<open>Properties of the broker\<close>

lemma put_loop_pointwise:
  "distinct qs \<Longrightarrow> put_loop ev qs store = put_each ev (set qs) store"
proof (induction qs arbitrary: store)
  case Nil
  show ?case by (simp add: put_each_def)
next
  case (Cons q qs)
  then have "put_loop ev qs (put store q ev) = put_each ev (set qs) (put store q ev)"
    by simp
  moreover have "put_each ev (set qs) (put store q ev) = put_each ev (set (q # qs)) store"
    using Cons.prems by (auto simp: put_each_def put_def fun_eq_iff)
  ultimately show ?case by simp
qed

lemma subscribers_publish [simp]:
  "subscribers (publish json_dumps b user_id event_type payload) = subscribers b"
  by (simp add: publish_def Let_def)

lemma next_queue_publish [simp]:
  "next_queue (publish json_dumps b user_id event_type payload) = next_queue b"
  by (simp add: publish_def Let_def)

lemma queues_publish_member:
  "subscribers b user_id = Some s \<Longrightarrow> q \<in> s \<Longrightarrow>
   queues (publish json_dumps b user_id event_type payload) q =
     queues b q @ [\<lparr>event = event_type, data = json_dumps payload\<rparr>]"
  by (simp add: publish_def Let_def put_each_def)

lemma subscribers_publish_all [simp]:
  "subscribers (publish_all json_dumps b user_id evs) = subscribers b"
  by (induction evs arbitrary: b) auto

lemma queues_publish_all_member:
  "subscribers b user_id = Some s \<Longrightarrow> q \<in> s \<Longrightarrow>
   queues (publish_all json_dumps b user_id evs) q = queues b q @ events_of json_dumps evs"
proof (induction evs arbitrary: b)
  case Nil
  show ?case by (simp add: events_of_def)
next
  case (Cons e evs)
  obtain event_type payload where e: "e = (event_type, payload)" by (cases e)
  let ?b = "publish json_dumps b user_id event_type payload"
  have "subscribers ?b user_id = Some s" using Cons.prems by simp
  then have "queues (publish_all json_dumps ?b user_id evs) q = queues ?b q @ events_of json_dumps evs"
    using Cons.IH Cons.prems by blast
  then show ?case
    using Cons.prems by (simp add: e queues_publish_member events_of_def)
qed

lemma subscribe_twice:
  assumes "subscribe b user_id = (b1, q1)" and "subscribe b1 user_id = (b2, q2)"
  shows "q1 \<noteq> q2" and "\<exists>s. subscribers b2 user_id = Some s \<and> q1 \<in> s \<and> q2 \<in> s"
    and "queues b2 q1 = []" and "queues b2 q2 = []"
  using assms by (auto simp: subscribe_def getitem_def Let_def split: option.splits)

lemma unsubscribe_absent:
  "subscribers b user_id = None \<Longrightarrow> unsubscribe b user_id queue = b"
  by (simp add: unsubscribe_def getitem_def Let_def fun_upd_idem)

lemma unsubscribe_fixed:
  assumes "subscribers b user_id = Some s" and "queue \<notin> s" and "s \<noteq> {}"
  shows "unsubscribe b user_id queue = b"
proof -
  have "s - {queue} = s" using assms(2) by simp
  then show ?thesis
    using assms by (auto simp: unsubscribe_def getitem_def Let_def fun_upd_idem)
qed

lemma unsubscribe_present:
  "subscribers b user_id = Some s \<Longrightarrow>
   subscribers (unsubscribe b user_id queue) =
     (if s - {queue} = {} then (subscribers b)(user_id := None)
      else (subscribers b)(user_id \<mapsto> s - {queue}))"
  by (simp add: unsubscribe_def getitem_def Let_def)

lemma unsubscribe_other_fields [simp]:
  "queues (unsubscribe b user_id queue) = queues b"
  "next_queue (unsubscribe b user_id queue) = next_queue b"
  by (simp_all add: unsubscribe_def getitem_def Let_def split: option.splits prod.splits)

lemma subscribe_entry:
  "subscribers (fst (subscribe b user_id)) =
     (subscribers b)(user_id \<mapsto> insert (next_queue b) (case subscribers b user_id of None \<Rightarrow> {} | Some s \<Rightarrow> s))"
  by (simp add: subscribe_def getitem_def Let_def split: option.splits)

lemma call_keeps_entries_nonempty:
  assumes "\<And>k. subscribers b k \<noteq> Some {}"
  shows "subscribers (call json_dumps b c) u \<noteq> Some {}"
proof (cases c)
  case (Subscribe user_id)
  then show ?thesis using assms by (simp add: subscribe_entry)
next
  case (Unsubscribe user_id queue)
  show ?thesis
  proof (cases "subscribers b user_id")
    case None
    then show ?thesis using assms Unsubscribe by (simp add: unsubscribe_absent)
  next
    case (Some s)
    then show ?thesis using assms Unsubscribe by (simp add: unsubscribe_present)
  qed
next
  case (Publish user_id event_type payload)
  then show ?thesis using assms by simp
qed

lemma run_keeps_entries_nonempty:
  "(\<And>k. subscribers b k \<noteq> Some {}) \<Longrightarrow> subscribers (run json_dumps b cs) u \<noteq> Some {}"
proof (induction cs arbitrary: b u)
  case Nil
  then show ?case by simp
next
  case (Cons c cs)
  have "\<And>k. subscribers (call json_dumps b c) k \<noteq> Some {}"
    using Cons.prems by (rule call_keeps_entries_nonempty)
  then show ?case using Cons.IH by simp
qed

subsection \<open>Delivery to every channel, in publish order\<close>

text \<open>
  C1. After any sequence of successive \<open>publish\<close> calls for a user, every queue that is
  registered for that user has received every event of the sequence, appended to what it
  held, in the order of the calls; the registry is as it was. In particular two
  subscriptions of the same user are two different queues, and each of them holds
  exactly the published events, in publish order.
\<close>

theorem publish_delivers_in_order:
  "(subscribers b user_id = Some s \<and> q \<in> s \<longrightarrow>
      queues (publish_all json_dumps b user_id evs) q = queues b q @ events_of json_dumps evs)
   \<and> subscribers (publish_all json_dumps b user_id evs) = subscribers b
   \<and> (case subscribe b user_id of (b1, q1) \<Rightarrow>
        case subscribe b1 user_id of (b2, q2) \<Rightarrow>
          q1 \<noteq> q2
          \<and> queues (publish_all json_dumps b2 user_id evs) q1 = events_of json_dumps evs
          \<and> queues (publish_all json_dumps b2 user_id evs) q2 = events_of json_dumps evs)"
proof (intro conjI impI)
  assume "subscribers b user_id = Some s \<and> q \<in> s"
  then show "queues (publish_all json_dumps b user_id evs) q = queues b q @ events_of json_dumps evs"
    by (simp add: queues_publish_all_member)
next
  show "subscribers (publish_all json_dumps b user_id evs) = subscribers b" by simp
next
  obtain b1 q1 where s1: "subscribe b user_id = (b1, q1)" by (cases "subscribe b user_id")
  obtain b2 q2 where s2: "subscribe b1 user_id = (b2, q2)" by (cases "subscribe b1 user_id")
  from subscribe_twice(2)[OF s1 s2] obtain s
    where s: "subscribers b2 user_id = Some s" "q1 \<in> s" "q2 \<in> s" by blast
  have "q1 \<noteq> q2" using s1 s2 by (rule subscribe_twice(1))
  moreover have "queues (publish_all json_dumps b2 user_id evs) q1 = events_of json_dumps evs"
    using queues_publish_all_member[OF s(1) s(2)] subscribe_twice(3)[OF s1 s2] by simp
  moreover have "queues (publish_all json_dumps b2 user_id evs) q2 = events_of json_dumps evs"
    using queues_publish_all_member[OF s(1) s(3)] subscribe_twice(4)[OF s1 s2] by simp
  ultimately show "case subscribe b user_id of (b1, q1) \<Rightarrow>
        case subscribe b1 user_id of (b2, q2) \<Rightarrow>
          q1 \<noteq> q2
          \<and> queues (publish_all json_dumps b2 user_id evs) q1 = events_of json_dumps evs
          \<and> queues (publish_all json_dumps b2 user_id evs) q2 = events_of json_dumps evs"
    by (simp add: s1 s2)
qed

theorem publish_delivers_in_order_witness:
  "subscribers (fst (subscribe (fst (subscribe SSEBroker ''alice'')) ''alice'')) ''alice'' = Some {0, 1}
   \<and> (1::nat) \<in> {0, 1}
   \<and> queues (publish_all (\<lambda>d. d) (fst (subscribe (fst (subscribe SSEBroker ''alice'')) ''alice''))
        ''alice'' [(''notification'', ''{1}''), (''status_change'', ''{2}'')]) 1
     = [\<lparr>event = ''notification'', data = ''{1}''\<rparr>, \<lparr>event = ''status_change'', data = ''{2}''\<rparr>]"
proof -
  let ?b = "fst (subscribe (fst (subscribe SSEBroker ''alice'')) ''alice'')"
  have h: "subscribers ?b ''alice'' = Some {0, 1} \<and> (1::nat) \<in> {0, 1}"
    by (auto simp: subscribe_def getitem_def SSEBroker_def Let_def)
  have e: "queues ?b 1 = []"
    by (simp add: subscribe_def getitem_def SSEBroker_def Let_def)
  from publish_delivers_in_order[of ?b "''alice''" "{0, 1}" 1 "\<lambda>d. d"
      "[(''notification'', ''{1}''), (''status_change'', ''{2}'')]"] h
  have "queues (publish_all (\<lambda>d. d) ?b ''alice'' [(''notification'', ''{1}''), (''status_change'', ''{2}'')]) 1
        = queues ?b 1 @ events_of (\<lambda>d. d) [(''notification'', ''{1}''), (''status_change'', ''{2}'')]"
    by blast
  then show ?thesis using h e by (simp add: events_of_def)
qed

subsection \<open>Publishing to a user without channels\<close>

text \<open>
  C2. When the user has no registered channel (no entry in the registry, or an entry
  holding the empty set), \<open>publish\<close> returns the state it was given: no queue receives
  anything and the registry has no new entry. \<open>publish\<close> has no failing branch.
\<close>

theorem publish_no_subscribers:
  "subscribers b user_id = None \<or> subscribers b user_id = Some {} \<Longrightarrow>
   publish json_dumps b user_id event_type payload = b"
  by (auto simp: publish_def Let_def put_each_def)

theorem publish_no_subscribers_witness:
  "(subscribers SSEBroker ''bob'' = None \<or> subscribers SSEBroker ''bob'' = Some {})
   \<and> publish (\<lambda>d. d) SSEBroker ''bob'' ''notification'' ''{}'' = SSEBroker"
proof -
  have h: "subscribers SSEBroker ''bob'' = None \<or> subscribers SSEBroker ''bob'' = Some {}"
    by (simp add: SSEBroker_def)
  from publish_no_subscribers[OF h] h show ?thesis by simp
qed

subsection \<open>Unsubscribing twice\<close>

text \<open>
  C3. A second \<open>unsubscribe\<close> of the same user id and queue changes nothing: the state
  after it is the state after the first call. \<open>unsubscribe\<close> has no failing branch
  (\<open>discard\<close> accepts an absent element and the \<open>defaultdict\<close> read an absent key).
\<close>

theorem unsubscribe_idempotent:
  "unsubscribe (unsubscribe b user_id queue) user_id queue = unsubscribe b user_id queue"
proof (cases "subscribers b user_id")
  case None
  then show ?thesis by (simp add: unsubscribe_absent)
next
  case (Some s)
  show ?thesis
  proof (cases "s - {queue} = {}")
    case True
    then have "subscribers (unsubscribe b user_id queue) user_id = None"
      using Some by (simp add: unsubscribe_present)
    then show ?thesis by (rule unsubscribe_absent)
  next
    case False
    then have "subscribers (unsubscribe b user_id queue) user_id = Some (s - {queue})"
      using Some by (simp add: unsubscribe_present)
    then show ?thesis
      using False by (intro unsubscribe_fixed) auto
  qed
qed

subsection \<open>No user is registered with an empty set of channels\<close>

text \<open>
  C9. After any sequence of \<open>subscribe\<close>, \<open>unsubscribe\<close> and \<open>publish\<close> calls on a new
  broker, a user id that is a key of the registry maps to a non-empty set. \<open>unsubscribe\<close>
  deletes the entry of a user whose set becomes empty, and \<open>publish\<close> leaves the registry
  as it is (so it creates no entry).
\<close>

theorem registry_entries_nonempty:
  "(subscribers (run json_dumps SSEBroker cs) u = Some s \<longrightarrow> s \<noteq> {})
   \<and> (subscribers b u = Some s' \<and> s' - {q} = {} \<longrightarrow> subscribers (unsubscribe b u q) u = None)
   \<and> subscribers (publish json_dumps b u event_type payload) = subscribers b"
proof (intro conjI impI)
  assume "subscribers (run json_dumps SSEBroker cs) u = Some s"
  moreover have "subscribers (run json_dumps SSEBroker cs) u \<noteq> Some {}"
    by (rule run_keeps_entries_nonempty) (simp add: SSEBroker_def)
  ultimately show "s \<noteq> {}" by auto
next
  assume "subscribers b u = Some s' \<and> s' - {q} = {}"
  then show "subscribers (unsubscribe b u q) u = None"
    by (simp add: unsubscribe_present)
next
  show "subscribers (publish json_dumps b u event_type payload) = subscribers b" by simp
qed

theorem registry_entries_nonempty_witness:
  "subscribers (run (\<lambda>d. d) SSEBroker
      [Subscribe ''alice'', Subscribe ''alice'', Publish ''alice'' ''notification'' ''{}'',
       Unsubscribe ''alice'' 0, Subscribe ''bob'', Unsubscribe ''bob'' 2]) ''alice'' = Some {1}
   \<and> {1::nat} \<noteq> {}
   \<and> subscribers (fst (subscribe SSEBroker ''bob'')) ''bob'' = Some {0} \<and> {0::nat} - {0} = {}
   \<and> subscribers (unsubscribe (fst (subscribe SSEBroker ''bob'')) ''bob'' 0) ''bob'' = None"
proof -
  let ?cs = "[Subscribe ''alice'', Subscribe ''alice'', Publish ''alice'' ''notification'' ''{}'',
       Unsubscribe ''alice'' 0, Subscribe ''bob'', Unsubscribe ''bob'' 2]"
  let ?b = "fst (subscribe SSEBroker ''bob'')"
  have r: "subscribers (run (\<lambda>d. d) SSEBroker ?cs) ''alice'' = Some {1}"
    by (simp add: subscribe_def unsubscribe_def publish_def getitem_def SSEBroker_def Let_def
        insert_Diff_if)
  have h: "subscribers ?b ''bob'' = Some {0} \<and> {0::nat} - {0} = {}"
    by (simp add: subscribe_def getitem_def SSEBroker_def Let_def)
  from registry_entries_nonempty[of "\<lambda>d. d" ?cs "''alice''" "{1}" ?b "{0}" 0 "''notification''" "''{}''"]
  have "(subscribers (run (\<lambda>d. d) SSEBroker ?cs) ''alice'' = Some {1} \<longrightarrow> {1::nat} \<noteq> {})
     \<and> (subscribers ?b ''alice'' = Some {0} \<and> {0::nat} - {0} = {} \<longrightarrow>
          subscribers (unsubscribe ?b ''alice'' 0) ''alice'' = None)"
    by blast
  then show ?thesis using r h registry_entries_nonempty[of "\<lambda>d. d" "[]" "''bob''" "{0}" ?b "{0}" 0 "''x''" "''y''"]
    by simp
qed

section \<open>Properties of identity resolution\<close>

lemma scan_tokens_no_match:
  "\<forall>ct \<in> set tokens. checkpw raw (ClientToken_token_hash ct) = Inr False \<Longrightarrow>
   scan_tokens checkpw now raw d tokens = (Inr None, d)"
  by (induction tokens) auto

lemma scan_tokens_cong:
  "\<forall>ct \<in> set tokens. checkpw raw (ClientToken_token_hash ct) = checkpw' raw (ClientToken_token_hash ct) \<Longrightarrow>
   scan_tokens checkpw now raw d tokens = scan_tokens checkpw' now raw d tokens"
  by (induction tokens) (auto split: sum.splits)

lemma scan_tokens_first_match:
  "\<forall>ct \<in> set before. checkpw raw (ClientToken_token_hash ct) = Inr False \<Longrightarrow>
   checkpw raw (ClientToken_token_hash ct) = Inr True \<Longrightarrow>
   scan_tokens checkpw now raw d (before @ ct # rest) = (Inr (users d (ClientToken_user_id ct)), touch now ct d)"
  by (induction before) auto

lemma scan_tokens_first_raise:
  "\<forall>ct \<in> set before. checkpw raw (ClientToken_token_hash ct) = Inr False \<Longrightarrow>
   checkpw raw (ClientToken_token_hash ct) = Inl e \<Longrightarrow>
   scan_tokens checkpw now raw d (before @ ct # rest) = (Inl e, d)"
  by (induction before) auto

lemma bearer_header:
  "headers request ''Authorization'' = Some (''Bearer '' @ raw) \<Longrightarrow>
   get_current_user_from_token checkpw now request d = scan_tokens checkpw now raw d (client_tokens d)"
  by (simp add: get_current_user_from_token_def startswith_def)

lemma scalar_one_or_none_Some:
  "scalar_one_or_none rows = Inr (Some row) \<Longrightarrow> rows = [row]"
  by (cases rows rule: scalar_one_or_none.cases) auto

lemma revoke_token_rows:
  assumes "revoke_token tid user d = Inr d'"
  shows "client_tokens d' = filter (\<lambda>t. ClientToken_id t \<noteq> tid) (client_tokens d)"
proof -
  let ?rows = "filter (\<lambda>t. ClientToken_id t = tid \<and> ClientToken_user_id t = User_id user) (client_tokens d)"
  from assms obtain token where tok: "scalar_one_or_none ?rows = Inr (Some token)"
    and d': "d' = d\<lparr>client_tokens := filter (\<lambda>t. ClientToken_id t \<noteq> ClientToken_id token) (client_tokens d)\<rparr>"
    by (auto simp: revoke_token_def split: sum.splits option.splits)
  from tok have "?rows = [token]" by (rule scalar_one_or_none_Some)
  then have "token \<in> set ?rows" by simp
  then have "ClientToken_id token = tid" by simp
  then show ?thesis using d' by simp
qed

lemma demo_long_token_length: "length demo_long_token = 73"
  by (simp add: demo_long_token_def)

lemma demo_long_token_raises: "demo_checkpw demo_long_token hashed = Inl ValueError"
  by (simp add: demo_checkpw_def demo_long_token_length)

lemma demo_long_token_header:
  "headers \<lparr>cookies = c, headers = [''Authorization'' \<mapsto> ''Bearer '' @ demo_long_token]\<rparr> ''Authorization''
     = Some (''Bearer '' @ demo_long_token)"
  by simp

subsection \<open>The session cookie and the bearer token\<close>

text \<open>
  What holds of the precedence. A request whose session cookie validates to the id of a
  stored user resolves to that user, whatever its \<open>Authorization\<close> header holds, and the
  token table is not touched. When the session resolves to nobody without raising (no
  cookie, or a cookie that \<open>validate_session\<close> answers with \<open>None\<close>), the outcome is that of
  the bearer token: its user, the exception \<open>HTTPException 401 ''Not authenticated''\<close> when it
  resolves to nobody, or the exception the scan raised.
\<close>

lemma session_precedence:
  "(cookies request SESSION_COOKIE = Some cookie \<and> cookie \<noteq> []
      \<and> validate_session (SessionManager URLSafeTimedSerializer (SECRET_KEY settings)) now cookie = Inr (Some uid)
      \<and> uid \<noteq> [] \<and> users d uid = Some user
      \<longrightarrow> get_current_user URLSafeTimedSerializer checkpw now request d settings = (Inr user, d))
   \<and> (cookies request SESSION_COOKIE = None
        \<or> validate_session (SessionManager URLSafeTimedSerializer (SECRET_KEY settings)) now
             (the (cookies request SESSION_COOKIE)) = Inr None
      \<longrightarrow> get_current_user_from_session URLSafeTimedSerializer now request d settings = Inr None)
   \<and> (get_current_user_from_session URLSafeTimedSerializer now request d settings = Inr None
      \<longrightarrow> get_current_user URLSafeTimedSerializer checkpw now request d settings =
            (case get_current_user_from_token checkpw now request d of
               (Inl e, d') \<Rightarrow> (Inl e, d')
             | (Inr (Some token_user), d') \<Rightarrow> (Inr token_user, d')
             | (Inr None, d') \<Rightarrow> (Inl (HTTPException 401 ''Not authenticated''), d')))
   \<and> (get_current_user_from_session URLSafeTimedSerializer now request d settings = Inl e
      \<longrightarrow> get_current_user URLSafeTimedSerializer checkpw now request d settings = (Inl e, d))"
  by (auto simp: get_current_user_def get_current_user_from_session_def split: option.splits)

lemma demo_bearer_bob:
  "get_current_user_from_token demo_checkpw 10
     \<lparr>cookies = c, headers = [''Authorization'' \<mapsto> ''Bearer bob-secret'']\<rparr> demo_db
   = (Inr (Some demo_bob), touch 10 demo_token demo_db)"
  by (simp add: get_current_user_from_token_def startswith_def demo_db_def demo_token_def
      demo_checkpw_def suffix_to_prefix Let_def)

lemma session_precedence_example:
  "get_current_user demo_serializer demo_checkpw 10
     \<lparr>cookies = [''session'' \<mapsto> ''signed-alice''], headers = [''Authorization'' \<mapsto> ''Bearer bob-secret'']\<rparr>
     demo_db demo_settings = (Inr demo_alice, demo_db)
   \<and> get_current_user demo_serializer demo_checkpw 10
     \<lparr>cookies = [''session'' \<mapsto> ''forged''], headers = [''Authorization'' \<mapsto> ''Bearer wrong'']\<rparr>
     demo_db demo_settings = (Inl (HTTPException 401 ''Not authenticated''), demo_db)"
proof -
  let ?both = "\<lparr>cookies = [''session'' \<mapsto> ''signed-alice''], headers = [''Authorization'' \<mapsto> ''Bearer bob-secret'']\<rparr>"
  let ?bad = "\<lparr>cookies = [''session'' \<mapsto> ''forged''], headers = [''Authorization'' \<mapsto> ''Bearer wrong'']\<rparr>"
  have v: "validate_session (SessionManager demo_serializer (SECRET_KEY demo_settings)) 10 ''signed-alice''
             = Inr (Some ''u-alice'')"
    by (simp add: validate_session_def SessionManager_def demo_serializer_def)
  have f: "validate_session (SessionManager demo_serializer (SECRET_KEY demo_settings)) 10 ''forged'' = Inr None"
    by (simp add: validate_session_def SessionManager_def demo_serializer_def)
  have u: "users demo_db ''u-alice'' = Some demo_alice"
    by (simp add: demo_db_def)
  have t2: "get_current_user_from_token demo_checkpw 10 ?bad demo_db = (Inr None, demo_db)"
    by (simp add: get_current_user_from_token_def startswith_def demo_db_def demo_token_def
        demo_checkpw_def suffix_to_prefix Let_def)
  have a: "get_current_user demo_serializer demo_checkpw 10 ?both demo_db demo_settings = (Inr demo_alice, demo_db)"
    using session_precedence[of ?both "''signed-alice''" demo_serializer demo_settings 10
        "''u-alice''" demo_db demo_alice demo_checkpw] v u
    by (simp add: SESSION_COOKIE_def)
  have c: "get_current_user demo_serializer demo_checkpw 10 ?bad demo_db demo_settings
             = (Inl (HTTPException 401 ''Not authenticated''), demo_db)"
    using session_precedence[of ?bad "''forged''" demo_serializer demo_settings 10
        "''u-alice''" demo_db demo_alice demo_checkpw] f t2
    by (simp add: SESSION_COOKIE_def)
  from a c show ?thesis by simp
qed

text \<open>
  C4. The fallback and the uniform rejection fail on two requests. The first carries a
  session cookie that is correctly signed but whose payload is a list, and a bearer token
  that alone resolves to Bob: \<open>validate_session\<close> raises \<open>TypeError\<close> before the token is
  tried, so the request neither falls back to the token nor is rejected with the 401. The
  second carries no cookie and a bearer token of 73 characters: \<open>checkpw\<close> raises
  \<open>ValueError\<close> on the first stored row, and that exception, not the 401, leaves
  \<open>get_current_user\<close>.
\<close>

theorem get_current_user_raises_instead_of_fallback:
  "get_current_user demo_serializer demo_checkpw 10
     \<lparr>cookies = [''session'' \<mapsto> ''signed-list''], headers = [''Authorization'' \<mapsto> ''Bearer bob-secret'']\<rparr>
     demo_db demo_settings = (Inl TypeError, demo_db)
   \<and> fst (get_current_user demo_serializer demo_checkpw 10
     \<lparr>cookies = Map.empty, headers = [''Authorization'' \<mapsto> ''Bearer bob-secret'']\<rparr>
     demo_db demo_settings) = Inr demo_bob
   \<and> get_current_user demo_serializer demo_checkpw 10
     \<lparr>cookies = Map.empty, headers = [''Authorization'' \<mapsto> ''Bearer '' @ demo_long_token]\<rparr>
     demo_db demo_settings = (Inl ValueError, demo_db)"
proof -
  have 1: "get_current_user demo_serializer demo_checkpw 10
     \<lparr>cookies = [''session'' \<mapsto> ''signed-list''], headers = [''Authorization'' \<mapsto> ''Bearer bob-secret'']\<rparr>
     demo_db demo_settings = (Inl TypeError, demo_db)"
    by (simp add: get_current_user_def get_current_user_from_session_def SESSION_COOKIE_def
        validate_session_def SessionManager_def demo_serializer_def)
  have 2: "fst (get_current_user demo_serializer demo_checkpw 10
     \<lparr>cookies = Map.empty, headers = [''Authorization'' \<mapsto> ''Bearer bob-secret'']\<rparr>
     demo_db demo_settings) = Inr demo_bob"
    by (simp add: get_current_user_def get_current_user_from_session_def SESSION_COOKIE_def
        demo_bearer_bob)
  have "scan_tokens demo_checkpw 10 demo_long_token demo_db (client_tokens demo_db) = (Inl ValueError, demo_db)"
    by (simp add: demo_db_def demo_long_token_raises)
  then have 3: "get_current_user demo_serializer demo_checkpw 10
     \<lparr>cookies = Map.empty, headers = [''Authorization'' \<mapsto> ''Bearer '' @ demo_long_token]\<rparr>
     demo_db demo_settings = (Inl ValueError, demo_db)"
    using bearer_header[where checkpw = demo_checkpw and now = 10 and d = demo_db,
        OF demo_long_token_header[where c = Map.empty]]
    by (simp add: get_current_user_def get_current_user_from_session_def SESSION_COOKIE_def)
  from 1 2 3 show ?thesis by simp
qed

subsection \<open>Verification scans the stored tokens; a revoked token no longer verifies\<close>

text \<open>
  What holds of the scan. The outcome for a raw bearer token depends on \<open>checkpw\<close> only
  at the hashes of the stored rows; when \<open>checkpw\<close> answers \<open>False\<close> on every stored row the
  result is \<open>None\<close> and the table is unchanged. After \<open>revoke_token\<close> deleted a row, a
  token that only that row accepted (the others answering \<open>False\<close>) is rejected, at any
  later time, and the rejection leaves the table as it is.
\<close>

lemma revoked_token_fails:
  "(headers request ''Authorization'' = Some (''Bearer '' @ raw)
      \<and> (\<forall>ct \<in> set (client_tokens d). checkpw raw (ClientToken_token_hash ct) = Inr False)
      \<longrightarrow> get_current_user_from_token checkpw now request d = (Inr None, d))
   \<and> (headers request ''Authorization'' = Some (''Bearer '' @ raw)
      \<and> (\<forall>ct \<in> set (client_tokens d).
            checkpw raw (ClientToken_token_hash ct) = checkpw' raw (ClientToken_token_hash ct))
      \<longrightarrow> get_current_user_from_token checkpw now request d = get_current_user_from_token checkpw' now request d)
   \<and> (headers request ''Authorization'' = Some (''Bearer '' @ raw)
      \<and> revoke_token tid user d = Inr d'
      \<and> (\<forall>ct \<in> set (client_tokens d).
            ClientToken_id ct \<noteq> tid \<longrightarrow> checkpw raw (ClientToken_token_hash ct) = Inr False)
      \<longrightarrow> get_current_user_from_token checkpw now request d' = (Inr None, d'))"
proof (intro conjI impI)
  assume "headers request ''Authorization'' = Some (''Bearer '' @ raw)
      \<and> (\<forall>ct \<in> set (client_tokens d). checkpw raw (ClientToken_token_hash ct) = Inr False)"
  then show "get_current_user_from_token checkpw now request d = (Inr None, d)"
    by (simp add: bearer_header scan_tokens_no_match)
next
  assume "headers request ''Authorization'' = Some (''Bearer '' @ raw)
      \<and> (\<forall>ct \<in> set (client_tokens d).
            checkpw raw (ClientToken_token_hash ct) = checkpw' raw (ClientToken_token_hash ct))"
  then show "get_current_user_from_token checkpw now request d = get_current_user_from_token checkpw' now request d"
    using scan_tokens_cong[of "client_tokens d" checkpw raw checkpw' now d] by (simp add: bearer_header)
next
  assume a: "headers request ''Authorization'' = Some (''Bearer '' @ raw)
      \<and> revoke_token tid user d = Inr d'
      \<and> (\<forall>ct \<in> set (client_tokens d).
            ClientToken_id ct \<noteq> tid \<longrightarrow> checkpw raw (ClientToken_token_hash ct) = Inr False)"
  then have "client_tokens d' = filter (\<lambda>t. ClientToken_id t \<noteq> tid) (client_tokens d)"
    using revoke_token_rows by blast
  then have "\<forall>ct \<in> set (client_tokens d'). checkpw raw (ClientToken_token_hash ct) = Inr False"
    using a by auto
  then show "get_current_user_from_token checkpw now request d' = (Inr None, d')"
    using a by (simp add: bearer_header scan_tokens_no_match)
qed

lemma revoked_token_fails_example:
  "fst (get_current_user_from_token demo_checkpw 10
          \<lparr>cookies = Map.empty, headers = [''Authorization'' \<mapsto> ''Bearer bob-secret'']\<rparr> demo_db)
     = Inr (Some demo_bob)
   \<and> revoke_token ''t-1'' demo_bob demo_db = Inr (demo_db\<lparr>client_tokens := []\<rparr>)
   \<and> get_current_user_from_token demo_checkpw 11
        \<lparr>cookies = Map.empty, headers = [''Authorization'' \<mapsto> ''Bearer bob-secret'']\<rparr>
        (demo_db\<lparr>client_tokens := []\<rparr>) = (Inr None, demo_db\<lparr>client_tokens := []\<rparr>)"
proof -
  let ?req = "\<lparr>cookies = Map.empty, headers = [''Authorization'' \<mapsto> ''Bearer bob-secret'']\<rparr>"
  let ?d' = "demo_db\<lparr>client_tokens := []\<rparr>"
  have before: "fst (get_current_user_from_token demo_checkpw 10 ?req demo_db) = Inr (Some demo_bob)"
    by (simp add: demo_bearer_bob)
  have h: "headers ?req ''Authorization'' = Some (''Bearer '' @ ''bob-secret'')"
    by simp
  have r: "revoke_token ''t-1'' demo_bob demo_db = Inr ?d'"
    by (simp add: revoke_token_def demo_db_def demo_token_def demo_bob_def)
  have only: "\<forall>ct \<in> set (client_tokens demo_db).
      ClientToken_id ct \<noteq> ''t-1'' \<longrightarrow> demo_checkpw ''bob-secret'' (ClientToken_token_hash ct) = Inr False"
    by (simp add: demo_db_def demo_token_def)
  have after: "get_current_user_from_token demo_checkpw 11 ?req ?d' = (Inr None, ?d')"
    using revoked_token_fails[of ?req "''bob-secret''" demo_db demo_checkpw 11 demo_checkpw "''t-1''" demo_bob ?d']
      h r only by blast
  from before r after show ?thesis by blast
qed

text \<open>
  C5. A raw bearer token that no stored row accepts is not always answered with
  \<open>None\<close>: for a token of 73 characters \<open>checkpw\<close> raises \<open>ValueError\<close> on the first stored
  row (it answers \<open>True\<close> for no row), the loop has no \<open>try\<close>, and the exception leaves
  \<open>get_current_user_from_token\<close>.
\<close>

theorem long_bearer_token_raises:
  "client_tokens demo_db = [demo_token]
   \<and> demo_checkpw demo_long_token (ClientToken_token_hash demo_token) \<noteq> Inr True
   \<and> get_current_user_from_token demo_checkpw 10
        \<lparr>cookies = Map.empty, headers = [''Authorization'' \<mapsto> ''Bearer '' @ demo_long_token]\<rparr> demo_db
      = (Inl ValueError, demo_db)"
proof -
  have "scan_tokens demo_checkpw 10 demo_long_token demo_db (client_tokens demo_db) = (Inl ValueError, demo_db)"
    by (simp add: demo_db_def demo_long_token_raises)
  then show ?thesis
    using bearer_header[where checkpw = demo_checkpw and now = 10 and d = demo_db,
        OF demo_long_token_header[where c = Map.empty]]
    by (simp add: demo_db_def demo_long_token_raises)
qed

subsection \<open>An issued token verifies; a string that is no stored plaintext does not\<close>

text \<open>
  The contract of the bcrypt parameters on a password of at most 72 bytes: \<open>checkpw\<close>
  accepts the password for a hash exactly when the hash is \<open>hashpw\<close> of that password
  under some salt (the library recomputes the hash with the salt it reads from the
  stored hash, and compares).
\<close>

lemma demo_bcrypt_contract:
  "\<forall>password hashed. length password \<le> 72 \<longrightarrow>
     demo_checkpw password hashed = Inr (\<exists>salt. demo_hashpw password salt = Inr hashed)"
  by (auto simp: demo_checkpw_def demo_hashpw_def suffix_def)

lemma create_token_result:
  assumes "create_token hashpw r now payload user d = Inr (resp, d')"
  shows "TokenCreatedResponse_token resp = draw_token_urlsafe r"
    and "users d' = users d"
    and "\<exists>ct. client_tokens d' = client_tokens d @ [ct]
           \<and> hashpw (draw_token_urlsafe r) (draw_gensalt r) = Inr (ClientToken_token_hash ct)
           \<and> ClientToken_user_id ct = User_id user"
  using assms
  by (auto simp: create_token_def generate_api_token_def hash_token_def Let_def
      split: if_splits sum.splits)

text \<open>
  What holds of issuing and verifying, under that contract: once \<open>create_token\<close> has
  stored a token for a user of the database, a request bearing the returned plaintext (of
  at most 72 bytes: \<open>token_urlsafe(32)\<close> gives 43 characters) resolves to that user,
  provided the new random plaintext is not already the plaintext of a stored token; and a
  request bearing a string of at most 72 bytes that is the plaintext of no stored token
  resolves to nobody and changes nothing.
\<close>

lemma issued_token_verifies:
  assumes "\<forall>password hashed. length password \<le> 72 \<longrightarrow>
             checkpw password hashed = Inr (\<exists>salt. hashpw password salt = Inr hashed)"
  shows "(create_token hashpw r now payload user d = Inr (resp, d')
            \<and> users d (User_id user) = Some user
            \<and> length (draw_token_urlsafe r) \<le> 72
            \<and> (\<forall>ct \<in> set (client_tokens d). \<forall>salt.
                  hashpw (draw_token_urlsafe r) salt \<noteq> Inr (ClientToken_token_hash ct))
            \<and> headers request ''Authorization'' = Some (''Bearer '' @ TokenCreatedResponse_token resp)
            \<longrightarrow> fst (get_current_user_from_token checkpw now' request d') = Inr (Some user))
         \<and> (headers request ''Authorization'' = Some (''Bearer '' @ raw)
            \<and> length raw \<le> 72
            \<and> (\<forall>ct \<in> set (client_tokens d). \<forall>salt. hashpw raw salt \<noteq> Inr (ClientToken_token_hash ct))
            \<longrightarrow> get_current_user_from_token checkpw now' request d = (Inr None, d))"
proof (intro conjI impI)
  assume a: "create_token hashpw r now payload user d = Inr (resp, d')
            \<and> users d (User_id user) = Some user
            \<and> length (draw_token_urlsafe r) \<le> 72
            \<and> (\<forall>ct \<in> set (client_tokens d). \<forall>salt.
                  hashpw (draw_token_urlsafe r) salt \<noteq> Inr (ClientToken_token_hash ct))
            \<and> headers request ''Authorization'' = Some (''Bearer '' @ TokenCreatedResponse_token resp)"
  let ?plain = "draw_token_urlsafe r"
  from a have c: "create_token hashpw r now payload user d = Inr (resp, d')" by simp
  from create_token_result(3)[OF c] obtain ct where ct:
    "client_tokens d' = client_tokens d @ [ct]"
    "hashpw ?plain (draw_gensalt r) = Inr (ClientToken_token_hash ct)"
    "ClientToken_user_id ct = User_id user" by blast
  have fresh: "\<forall>t \<in> set (client_tokens d). checkpw ?plain (ClientToken_token_hash t) = Inr False"
    using a assms by auto
  have match: "checkpw ?plain (ClientToken_token_hash ct) = Inr True"
    using assms ct(2) a by auto
  have "get_current_user_from_token checkpw now' request d' = scan_tokens checkpw now' ?plain d' (client_tokens d')"
    using a create_token_result(1)[OF c] by (simp add: bearer_header)
  also have "\<dots> = (Inr (users d' (ClientToken_user_id ct)), touch now' ct d')"
    unfolding ct(1) using fresh match by (rule scan_tokens_first_match)
  finally show "fst (get_current_user_from_token checkpw now' request d') = Inr (Some user)"
    using a ct(3) create_token_result(2)[OF c] by simp
next
  assume a: "headers request ''Authorization'' = Some (''Bearer '' @ raw)
            \<and> length raw \<le> 72
            \<and> (\<forall>ct \<in> set (client_tokens d). \<forall>salt. hashpw raw salt \<noteq> Inr (ClientToken_token_hash ct))"
  then have "\<forall>ct \<in> set (client_tokens d). checkpw raw (ClientToken_token_hash ct) = Inr False"
    using assms by auto
  then show "get_current_user_from_token checkpw now' request d = (Inr None, d)"
    using a by (simp add: bearer_header scan_tokens_no_match)
qed

text \<open>
  C7. After a token was issued to Alice, its plaintext resolves to Alice; but a string of
  73 characters, which is the plaintext of neither stored token, is not answered with
  \<open>None\<close>: \<open>checkpw\<close> raises \<open>ValueError\<close> on the first stored row and the exception leaves
  \<open>get_current_user_from_token\<close>.
\<close>

theorem unknown_long_string_raises:
  "demo_long_token \<noteq> ''bob-secret'' \<and> demo_long_token \<noteq> draw_token_urlsafe demo_draws
   \<and> (case create_token demo_hashpw demo_draws 20
             \<lparr>TokenCreate_name = ''Laptop'', TokenCreate_device_type = gnome\<rparr> demo_alice demo_db of
        Inl e \<Rightarrow> False
      | Inr (resp, d') \<Rightarrow>
          TokenCreatedResponse_token resp = ''alice-secret''
          \<and> fst (get_current_user_from_token demo_checkpw 21
                    \<lparr>cookies = Map.empty, headers = [''Authorization'' \<mapsto> ''Bearer alice-secret'']\<rparr> d')
              = Inr (Some demo_alice)
          \<and> get_current_user_from_token demo_checkpw 21
               \<lparr>cookies = Map.empty, headers = [''Authorization'' \<mapsto> ''Bearer '' @ demo_long_token]\<rparr> d'
              = (Inl ValueError, d'))"
proof -
  let ?payload = "\<lparr>TokenCreate_name = ''Laptop'', TokenCreate_device_type = gnome\<rparr>"
  let ?req = "\<lparr>cookies = Map.empty, headers = [''Authorization'' \<mapsto> ''Bearer alice-secret'']\<rparr>"
  have "length demo_long_token \<noteq> length ''bob-secret''"
    and "length demo_long_token \<noteq> length (draw_token_urlsafe demo_draws)"
    by (simp_all add: demo_long_token_length demo_draws_def)
  then have ne: "demo_long_token \<noteq> ''bob-secret'' \<and> demo_long_token \<noteq> draw_token_urlsafe demo_draws"
    by metis
  obtain resp d' where c: "create_token demo_hashpw demo_draws 20 ?payload demo_alice demo_db = Inr (resp, d')"
    by (simp add: create_token_def generate_api_token_def hash_token_def demo_draws_def demo_db_def
        demo_token_def demo_hashpw_def Let_def)
  have tok: "TokenCreatedResponse_token resp = ''alice-secret''"
    using create_token_result(1)[OF c] by (simp add: demo_draws_def)
  have u: "users demo_db (User_id demo_alice) = Some demo_alice"
    by (simp add: demo_db_def demo_alice_def)
  have len: "length (draw_token_urlsafe demo_draws) \<le> 72"
    by (simp add: demo_draws_def)
  have "\<forall>ct \<in> set (client_tokens demo_db). demo_checkpw ''alice-secret'' (ClientToken_token_hash ct) = Inr False"
    by (simp add: demo_db_def demo_token_def demo_checkpw_def suffix_to_prefix)
  then have fresh: "\<forall>ct \<in> set (client_tokens demo_db). \<forall>salt.
      demo_hashpw (draw_token_urlsafe demo_draws) salt \<noteq> Inr (ClientToken_token_hash ct)"
    using demo_bcrypt_contract len by (auto simp: demo_draws_def)
  have h: "headers ?req ''Authorization'' = Some (''Bearer '' @ TokenCreatedResponse_token resp)"
    using tok by simp
  have one: "fst (get_current_user_from_token demo_checkpw 21 ?req d') = Inr (Some demo_alice)"
    using issued_token_verifies[OF demo_bcrypt_contract, of demo_draws 20 ?payload demo_alice demo_db
        resp d' ?req 21 "''alice-secret''"] c u len fresh h by blast
  from create_token_result(3)[OF c] obtain ct where "client_tokens d' = client_tokens demo_db @ [ct]"
    by blast
  then have "scan_tokens demo_checkpw 21 demo_long_token d' (client_tokens d') = (Inl ValueError, d')"
    by (simp add: demo_db_def demo_long_token_raises)
  then have two: "get_current_user_from_token demo_checkpw 21
               \<lparr>cookies = Map.empty, headers = [''Authorization'' \<mapsto> ''Bearer '' @ demo_long_token]\<rparr> d'
              = (Inl ValueError, d')"
    using bearer_header[where checkpw = demo_checkpw and now = 21 and d = d',
        OF demo_long_token_header[where c = Map.empty]] by simp
  from ne c tok one two show ?thesis by simp
qed

section \<open>Properties of session validation\<close>

text \<open>What \<open>validate_session\<close> does with each outcome of \<open>loads\<close>.\<close>

lemma validate_session_rejects:
  "loads sm now token SESSION_MAX_AGE = Inl BadSignature \<Longrightarrow> validate_session sm now token = Inr None"
  "loads sm now token SESSION_MAX_AGE = Inl SignatureExpired \<Longrightarrow> validate_session sm now token = Inr None"
  "loads sm now token SESSION_MAX_AGE = Inr (JObject m) \<Longrightarrow> m ''uid'' = None \<Longrightarrow>
     validate_session sm now token = Inr None"
  by (simp_all add: validate_session_def)

lemma validate_session_accepts:
  "loads sm now token SESSION_MAX_AGE = Inr (JObject m) \<Longrightarrow> m ''uid'' = Some uid \<Longrightarrow>
   validate_session sm now token = Inr (Some uid)"
  by (simp add: validate_session_def)

lemma validate_session_roundtrip:
  assumes "\<And>issued uid. issued \<le> now \<Longrightarrow> now - issued \<le> SESSION_MAX_AGE \<Longrightarrow>
             loads sm now (dumps sm issued (JObject [''uid'' \<mapsto> uid])) SESSION_MAX_AGE
               = Inr (JObject [''uid'' \<mapsto> uid])"
    and "issued \<le> now" and "now - issued < SESSION_MAX_AGE"
  shows "validate_session sm now (create_session sm issued uid) = Inr (Some uid)"
  using assms by (simp add: create_session_def validate_session_def)

lemma validate_session_expired:
  assumes "\<And>issued uid. now - issued > SESSION_MAX_AGE \<Longrightarrow>
             loads sm now (dumps sm issued (JObject [''uid'' \<mapsto> uid])) SESSION_MAX_AGE
               = Inl SignatureExpired"
    and "now - issued > 604800"
  shows "validate_session sm now (create_session sm issued uid) = Inr None"
  using assms by (simp add: create_session_def validate_session_rejects SESSION_MAX_AGE_def)

lemma validate_session_raises:
  "loads sm now token SESSION_MAX_AGE = Inl BadPayload \<Longrightarrow> validate_session sm now token = Inl BadPayload"
  "loads sm now token SESSION_MAX_AGE = Inr obj \<Longrightarrow> (\<And>m. obj \<noteq> JObject m) \<Longrightarrow>
     validate_session sm now token = Inl TypeError"
  by (simp add: validate_session_def, cases obj) (auto simp: validate_session_def)

text \<open>
  C6. A token whose signature and age are good and whose payload decodes to a JSON list
  (not to an object) is structurally malformed, yet \<open>validate_session\<close> does not return
  \<open>None\<close> for it: \<open>obj[''uid'']\<close> raises \<open>TypeError\<close>, which the \<open>except\<close> clause does not
  name, and the exception leaves \<open>validate_session\<close> and \<open>get_current_user\<close>.
  A signed object without \<open>uid\<close> is rejected with \<open>None\<close>, as the claim says.
\<close>

theorem validate_session_signed_list_raises:
  "validate_session (SessionManager demo_serializer (SECRET_KEY demo_settings)) 10 ''signed-list'' = Inl TypeError
   \<and> validate_session (SessionManager demo_serializer (SECRET_KEY demo_settings)) 10 ''signed-empty'' = Inr None
   \<and> fst (get_current_user demo_serializer demo_checkpw 10
        \<lparr>cookies = [''session'' \<mapsto> ''signed-list''], headers = Map.empty\<rparr> demo_db demo_settings)
      = Inl TypeError"
  by (simp add: validate_session_def SessionManager_def demo_serializer_def get_current_user_def
      get_current_user_from_session_def SESSION_COOKIE_def)

section \<open>Properties of the status update\<close>

lemma update_notification_found:
  "select_notification d nid (User_id user) = Some n \<Longrightarrow>
   update_notification json_dumps now nid payload user d b =
     (Inr (apply_update now payload n),
      d\<lparr>notifications := (notifications d)(nid \<mapsto> apply_update now payload n)\<rparr>,
      publish json_dumps b (User_id user) ''status_change''
        (JObject [''id'' \<mapsto> Notification_id (apply_update now payload n),
                  ''status'' \<mapsto> Status_value (Notification_status (apply_update now payload n))]))"
  by (simp add: update_notification_def Let_def)

lemma apply_update_owner [simp]:
  "Notification_user_id (apply_update now payload n) = Notification_user_id n"
  "Notification_id (apply_update now payload n) = Notification_id n"
  by (simp_all add: apply_update_def Let_def split: option.splits)

lemma apply_update_read_at:
  "Notification_read_at (apply_update now payload n) =
     (case Notification_read_at n of
        Some t \<Rightarrow> Some t
      | None \<Rightarrow> if NotificationUpdate_status payload = Some read then Some now else None)"
  by (auto simp: apply_update_def Let_def split: option.splits)

lemma apply_update_status:
  "Notification_status (apply_update now payload n) =
     (case NotificationUpdate_status payload of None \<Rightarrow> Notification_status n | Some st \<Rightarrow> st)"
  by (simp add: apply_update_def Let_def split: option.splits)

lemma select_after_update:
  assumes "select_notification d nid (User_id user) = Some n"
  shows "select_notification (fst (snd (update_notification json_dumps now nid payload user d b))) nid (User_id user)
           = Some (apply_update now payload n)"
proof -
  have "Notification_user_id n = User_id user"
    using assms by (auto simp: select_notification_def split: option.splits if_splits)
  then show ?thesis
    by (simp add: update_notification_found[OF assms] select_notification_def)
qed

lemma patch_all_keeps_read_at:
  "select_notification d nid (User_id user) = Some n \<Longrightarrow> Notification_read_at n = Some t \<Longrightarrow>
   \<exists>n'. select_notification (fst (patch_all json_dumps nid user ps (d, b))) nid (User_id user) = Some n'
        \<and> Notification_read_at n' = Some t"
proof (induction ps arbitrary: d b n)
  case Nil
  then show ?case by simp
next
  case (Cons p ps)
  obtain payload now where p: "p = (payload, now)" by (cases p)
  obtain r d1 b1 where u: "update_notification json_dumps now nid payload user d b = (r, d1, b1)"
    by (cases "update_notification json_dumps now nid payload user d b")
  have sel: "select_notification d1 nid (User_id user) = Some (apply_update now payload n)"
    using select_after_update[OF Cons.prems(1), of json_dumps now payload b] u by simp
  have "Notification_read_at (apply_update now payload n) = Some t"
    using Cons.prems(2) by (simp add: apply_update_read_at)
  from Cons.IH[OF sel this, of b1] show ?case by (simp add: p u)
qed

subsection \<open>The read time is set once\<close>

text \<open>
  C8. For a notification the caller owns: a PATCH with status \<open>read\<close> on a row whose
  \<open>read_at\<close> is null answers with status \<open>read\<close> and \<open>read_at\<close> the time of the request;
  a PATCH with another status, or with none, answers with the \<open>read_at\<close> the row had;
  and once \<open>read_at\<close> holds a time, every PATCH answers with that time and the row keeps
  it through any sequence of PATCHes. So a second PATCH with status \<open>read\<close> answers with
  the \<open>read_at\<close> of the first.
\<close>

theorem read_at_set_once:
  "select_notification d nid (User_id user) = Some n \<longrightarrow>
     (Notification_read_at n = None \<and> NotificationUpdate_status payload = Some read \<longrightarrow>
        (\<exists>r. fst (update_notification json_dumps now nid payload user d b) = Inr r
             \<and> Notification_status r = read \<and> Notification_read_at r = Some now))
     \<and> (NotificationUpdate_status payload \<noteq> Some read \<longrightarrow>
        (\<exists>r. fst (update_notification json_dumps now nid payload user d b) = Inr r
             \<and> Notification_read_at r = Notification_read_at n))
     \<and> (Notification_read_at n = Some t \<longrightarrow>
        (\<exists>r. fst (update_notification json_dumps now nid payload user d b) = Inr r
             \<and> Notification_read_at r = Some t)
        \<and> (\<exists>n'. select_notification (fst (patch_all json_dumps nid user ps (d, b))) nid (User_id user) = Some n'
             \<and> Notification_read_at n' = Some t))
     \<and> (Notification_read_at n = None \<longrightarrow>
        (\<exists>r1 d1 b1 r2.
           update_notification json_dumps now nid \<lparr>NotificationUpdate_status = Some read\<rparr> user d b = (Inr r1, d1, b1)
           \<and> Notification_status r1 = read \<and> Notification_read_at r1 = Some now
           \<and> fst (update_notification json_dumps later nid \<lparr>NotificationUpdate_status = Some read\<rparr> user d1 b1) = Inr r2
           \<and> Notification_status r2 = read \<and> Notification_read_at r2 = Some now))"
proof (intro impI conjI)
  assume sel: "select_notification d nid (User_id user) = Some n"
  {
    assume "Notification_read_at n = None \<and> NotificationUpdate_status payload = Some read"
    then show "\<exists>r. fst (update_notification json_dumps now nid payload user d b) = Inr r
             \<and> Notification_status r = read \<and> Notification_read_at r = Some now"
      by (simp add: update_notification_found[OF sel] apply_update_read_at apply_update_status)
  next
    assume "NotificationUpdate_status payload \<noteq> Some read"
    then show "\<exists>r. fst (update_notification json_dumps now nid payload user d b) = Inr r
             \<and> Notification_read_at r = Notification_read_at n"
      by (simp add: update_notification_found[OF sel] apply_update_read_at split: option.splits)
  next
    assume "Notification_read_at n = Some t"
    then show "\<exists>r. fst (update_notification json_dumps now nid payload user d b) = Inr r
             \<and> Notification_read_at r = Some t"
      by (simp add: update_notification_found[OF sel] apply_update_read_at)
  next
    assume "Notification_read_at n = Some t"
    with sel show "\<exists>n'. select_notification (fst (patch_all json_dumps nid user ps (d, b))) nid (User_id user) = Some n'
             \<and> Notification_read_at n' = Some t"
      by (rule patch_all_keeps_read_at)
  next
    assume none: "Notification_read_at n = None"
    let ?p = "\<lparr>NotificationUpdate_status = Some read\<rparr>"
    let ?n1 = "apply_update now ?p n"
    obtain r1 d1 b1 where u: "update_notification json_dumps now nid ?p user d b = (r1, d1, b1)"
      by (cases "update_notification json_dumps now nid ?p user d b")
    have r1: "r1 = Inr ?n1" using u update_notification_found[OF sel, of json_dumps now ?p b] by simp
    have sel1: "select_notification d1 nid (User_id user) = Some ?n1"
      using select_after_update[OF sel, of json_dumps now ?p b] u by simp
    have at1: "Notification_read_at ?n1 = Some now" "Notification_status ?n1 = read"
      using none by (simp_all add: apply_update_read_at apply_update_status)
    have "fst (update_notification json_dumps later nid ?p user d1 b1) = Inr (apply_update later ?p ?n1)"
      by (simp add: update_notification_found[OF sel1])
    moreover have "Notification_read_at (apply_update later ?p ?n1) = Some now"
      "Notification_status (apply_update later ?p ?n1) = read"
      using at1 by (simp_all add: apply_update_read_at apply_update_status)
    ultimately show "\<exists>r1 d1 b1 r2.
           update_notification json_dumps now nid ?p user d b = (Inr r1, d1, b1)
           \<and> Notification_status r1 = read \<and> Notification_read_at r1 = Some now
           \<and> fst (update_notification json_dumps later nid ?p user d1 b1) = Inr r2
           \<and> Notification_status r2 = read \<and> Notification_read_at r2 = Some now"
      using u r1 at1 by auto
  }
qed

theorem read_at_set_once_witness:
  "select_notification demo_db ''n-1'' (User_id demo_alice) = Some demo_notification
   \<and> Notification_read_at demo_notification = None
   \<and> (\<exists>r1 d1 b1 r2.
         update_notification demo_json_dumps 100 ''n-1'' \<lparr>NotificationUpdate_status = Some read\<rparr>
           demo_alice demo_db SSEBroker = (Inr r1, d1, b1)
         \<and> Notification_status r1 = read \<and> Notification_read_at r1 = Some 100
         \<and> fst (update_notification demo_json_dumps 200 ''n-1'' \<lparr>NotificationUpdate_status = Some read\<rparr>
                  demo_alice d1 b1) = Inr r2
         \<and> Notification_status r2 = read \<and> Notification_read_at r2 = Some 100)
   \<and> select_notification demo_read_db ''n-1'' (User_id demo_alice) = Some demo_read_notification
   \<and> Notification_read_at demo_read_notification = Some 100
   \<and> (\<exists>r. fst (update_notification demo_json_dumps 300 ''n-1'' \<lparr>NotificationUpdate_status = Some archived\<rparr>
                  demo_alice demo_read_db SSEBroker) = Inr r
           \<and> Notification_read_at r = Some 100)
   \<and> (\<exists>n'. select_notification
               (fst (patch_all demo_json_dumps ''n-1'' demo_alice
                       [(\<lparr>NotificationUpdate_status = Some unread\<rparr>, 400),
                        (\<lparr>NotificationUpdate_status = Some read\<rparr>, 500)]
                       (demo_read_db, SSEBroker))) ''n-1'' (User_id demo_alice) = Some n'
           \<and> Notification_read_at n' = Some 100)"
proof -
  have sel: "select_notification demo_db ''n-1'' (User_id demo_alice) = Some demo_notification"
    by (simp add: select_notification_def demo_db_def demo_notification_def demo_alice_def)
  have none: "Notification_read_at demo_notification = None"
    by (simp add: demo_notification_def)
  have sel': "select_notification demo_read_db ''n-1'' (User_id demo_alice) = Some demo_read_notification"
    by (simp add: select_notification_def demo_read_db_def demo_read_notification_def
        demo_notification_def demo_alice_def)
  have some: "Notification_read_at demo_read_notification = Some 100"
    by (simp add: demo_read_notification_def)
  have other: "NotificationUpdate_status \<lparr>NotificationUpdate_status = Some archived\<rparr> \<noteq> Some read"
    by simp
  note first = read_at_set_once[of demo_db "''n-1''" demo_alice demo_notification
      "\<lparr>NotificationUpdate_status = Some read\<rparr>" demo_json_dumps 100 SSEBroker 0 "[]" 200]
  note second = read_at_set_once[of demo_read_db "''n-1''" demo_alice demo_read_notification
      "\<lparr>NotificationUpdate_status = Some archived\<rparr>" demo_json_dumps 300 SSEBroker 100
      "[(\<lparr>NotificationUpdate_status = Some unread\<rparr>, 400), (\<lparr>NotificationUpdate_status = Some read\<rparr>, 500)]" 0]
  from first sel none have a: "\<exists>r1 d1 b1 r2.
         update_notification demo_json_dumps 100 ''n-1'' \<lparr>NotificationUpdate_status = Some read\<rparr>
           demo_alice demo_db SSEBroker = (Inr r1, d1, b1)
         \<and> Notification_status r1 = read \<and> Notification_read_at r1 = Some 100
         \<and> fst (update_notification demo_json_dumps 200 ''n-1'' \<lparr>NotificationUpdate_status = Some read\<rparr>
                  demo_alice d1 b1) = Inr r2
         \<and> Notification_status r2 = read \<and> Notification_read_at r2 = Some 100"
    by blast
  from second sel' some other have b: "\<exists>r. fst (update_notification demo_json_dumps 300 ''n-1''
        \<lparr>NotificationUpdate_status = Some archived\<rparr> demo_alice demo_read_db SSEBroker) = Inr r
           \<and> Notification_read_at r = Some 100"
    by metis
  from second sel' some have c: "\<exists>n'. select_notification
               (fst (patch_all demo_json_dumps ''n-1'' demo_alice
                       [(\<lparr>NotificationUpdate_status = Some unread\<rparr>, 400),
                        (\<lparr>NotificationUpdate_status = Some read\<rparr>, 500)]
                       (demo_read_db, SSEBroker))) ''n-1'' (User_id demo_alice) = Some n'
           \<and> Notification_read_at n' = Some 100"
    by blast
  from sel none a sel' some b c show ?thesis by blast
qed

subsection \<open>A PATCH without a status\<close>

text \<open>
  C10. For a notification the caller owns, a PATCH whose body has no status (omitted or
  null) answers with the row as it is, leaves the database as it is, and publishes a
  \<open>status_change\<close> event with the row's id and its unchanged status: every queue
  registered for the owner receives that event after what it held.
\<close>

theorem patch_without_status:
  "select_notification d nid (User_id user) = Some n \<and> NotificationUpdate_status payload = None \<longrightarrow>
     update_notification json_dumps now nid payload user d b =
       (Inr n, d,
        publish json_dumps b (User_id user) ''status_change''
          (JObject [''id'' \<mapsto> Notification_id n, ''status'' \<mapsto> Status_value (Notification_status n)]))
     \<and> (subscribers b (User_id user) = Some s \<and> q \<in> s \<longrightarrow>
          queues (snd (snd (update_notification json_dumps now nid payload user d b))) q =
            queues b q @
              [\<lparr>event = ''status_change'',
                data = json_dumps (JObject [''id'' \<mapsto> Notification_id n,
                                            ''status'' \<mapsto> Status_value (Notification_status n)])\<rparr>])"
proof (intro impI)
  assume a: "select_notification d nid (User_id user) = Some n \<and> NotificationUpdate_status payload = None"
  then have sel: "select_notification d nid (User_id user) = Some n" by simp
  have same: "apply_update now payload n = n"
    using a by (simp add: apply_update_def)
  have "notifications d nid = Some n"
    using sel by (auto simp: select_notification_def split: option.splits if_splits)
  then have "(notifications d)(nid \<mapsto> n) = notifications d"
    by (rule map_upd_triv)
  then have u: "update_notification json_dumps now nid payload user d b =
       (Inr n, d,
        publish json_dumps b (User_id user) ''status_change''
          (JObject [''id'' \<mapsto> Notification_id n, ''status'' \<mapsto> Status_value (Notification_status n)]))"
    by (simp add: update_notification_found[OF sel] same)
  show "update_notification json_dumps now nid payload user d b =
       (Inr n, d,
        publish json_dumps b (User_id user) ''status_change''
          (JObject [''id'' \<mapsto> Notification_id n, ''status'' \<mapsto> Status_value (Notification_status n)]))
     \<and> (subscribers b (User_id user) = Some s \<and> q \<in> s \<longrightarrow>
          queues (snd (snd (update_notification json_dumps now nid payload user d b))) q =
            queues b q @
              [\<lparr>event = ''status_change'',
                data = json_dumps (JObject [''id'' \<mapsto> Notification_id n,
                                            ''status'' \<mapsto> Status_value (Notification_status n)])\<rparr>])"
    using u by (simp add: queues_publish_member)
qed

theorem patch_without_status_witness:
  "select_notification demo_read_db ''n-1'' (User_id demo_alice) = Some demo_read_notification
   \<and> subscribers (fst (subscribe SSEBroker ''u-alice'')) (User_id demo_alice) = Some {0}
   \<and> update_notification demo_json_dumps 700 ''n-1'' \<lparr>NotificationUpdate_status = None\<rparr> demo_alice
        demo_read_db (fst (subscribe SSEBroker ''u-alice''))
      = (Inr demo_read_notification, demo_read_db,
         publish demo_json_dumps (fst (subscribe SSEBroker ''u-alice'')) ''u-alice'' ''status_change''
           (JObject [''id'' \<mapsto> ''n-1'', ''status'' \<mapsto> ''read'']))
   \<and> queues (snd (snd (update_notification demo_json_dumps 700 ''n-1'' \<lparr>NotificationUpdate_status = None\<rparr>
        demo_alice demo_read_db (fst (subscribe SSEBroker ''u-alice''))))) 0
      = [\<lparr>event = ''status_change'', data = ''{id: n-1, status: read}''\<rparr>]"
proof -
  let ?b = "fst (subscribe SSEBroker ''u-alice'')"
  have sel: "select_notification demo_read_db ''n-1'' (User_id demo_alice) = Some demo_read_notification"
    by (simp add: select_notification_def demo_read_db_def demo_read_notification_def
        demo_notification_def demo_alice_def)
  have sub: "subscribers ?b (User_id demo_alice) = Some {0}" and q: "queues ?b 0 = []"
    by (simp_all add: subscribe_def getitem_def SSEBroker_def Let_def demo_alice_def)
  have fields: "User_id demo_alice = ''u-alice''" "Notification_id demo_read_notification = ''n-1''"
    "Status_value (Notification_status demo_read_notification) = ''read''"
    by (simp_all add: demo_alice_def demo_read_notification_def demo_notification_def)
  have dumps: "demo_json_dumps (JObject [''id'' \<mapsto> ''n-1'', ''status'' \<mapsto> ''read'']) = ''{id: n-1, status: read}''"
    by (simp add: demo_json_dumps_def)
  have h: "select_notification demo_read_db ''n-1'' (User_id demo_alice) = Some demo_read_notification
      \<and> NotificationUpdate_status \<lparr>NotificationUpdate_status = None\<rparr> = None"
    using sel by simp
  have m: "subscribers ?b (User_id demo_alice) = Some {0} \<and> (0::nat) \<in> {0}"
    using sub by simp
  note both = patch_without_status[of demo_read_db "''n-1''" demo_alice demo_read_notification
      "\<lparr>NotificationUpdate_status = None\<rparr>" demo_json_dumps 700 ?b "{0}" 0, THEN mp, OF h]
  have e1: "update_notification demo_json_dumps 700 ''n-1'' \<lparr>NotificationUpdate_status = None\<rparr> demo_alice
          demo_read_db ?b
        = (Inr demo_read_notification, demo_read_db,
           publish demo_json_dumps ?b ''u-alice'' ''status_change''
             (JObject [''id'' \<mapsto> ''n-1'', ''status'' \<mapsto> ''read'']))"
    using both[THEN conjunct1] by (simp add: fields)
  have e2: "queues (snd (snd (update_notification demo_json_dumps 700 ''n-1'' \<lparr>NotificationUpdate_status = None\<rparr>
           demo_alice demo_read_db ?b))) 0
        = [\<lparr>event = ''status_change'', data = ''{id: n-1, status: read}''\<rparr>]"
    using both[THEN conjunct2, THEN mp, OF m] by (simp add: fields dumps q)
  from sel sub e1 e2 show ?thesis by blast
qed

end
